theory Spec2Isabelle
  imports Complex_Main
begin

section \<open>Data model (types.ts)\<close>

text \<open>
  \<^verbatim>\<open>enum AppStage\<close>: the five workflow stages, in declaration order.
\<close>

datatype AppStage =
    PROBLEM_DEFINITION
  | MODEL_CONSTRUCTION
  | DATA_GENERATION
  | ESTIMATION_ANALYSIS
  | COUNTERFACTUAL

text \<open>
  \<^verbatim>\<open>interface LocationData\<close>. The field \<^verbatim>\<open>id\<close> is written \<open>id'\<close>, since \<open>id\<close> is
  the identity function of HOL. JavaScript numbers are only copied by the code below,
  never computed with; they are modelled as reals.
\<close>

record LocationData =
  id' :: string
  name :: string
  population :: real
  wages :: real
  rents :: real
  amenity :: real
  productivity :: real

section \<open>The merge of baseline and counterfactual locations (DataVisualizer.tsx)\<close>

text \<open>
  The rows handed to the charts are JavaScript object literals. An object is modelled
  as the list of its own properties in insertion order, a property value as a string or
  a number.
\<close>

datatype cell = Str string | Num real

type_synonym chart_row = "(string \<times> cell) list"

text \<open>
  \<^verbatim>\<open>comparisonData?.find(c => c.id === d.id)\<close>: \<^verbatim>\<open>undefined\<close> when the optional
  property is absent, otherwise the first element of the array with that id, or
  \<^verbatim>\<open>undefined\<close> when there is none.
\<close>

definition find_comp :: "LocationData list option \<Rightarrow> LocationData \<Rightarrow> LocationData option" where
  "find_comp comparisonData d =
     (case comparisonData of
        None \<Rightarrow> None
      | Some cs \<Rightarrow> find (\<lambda>c. id' c = id' d) cs)"

text \<open>
  The object literal of one row: four baseline properties, followed by the spread of
  either the three comparison properties or the empty object.
\<close>

definition chart_row_of :: "LocationData \<Rightarrow> LocationData option \<Rightarrow> chart_row" where
  "chart_row_of d found =
     [(''name'', Str (name d)),
      (''Population'', Num (population d)),
      (''Wages'', Num (wages d)),
      (''Rents'', Num (rents d))] @
     (case found of
        Some c \<Rightarrow>
          [(''Pop (CF)'', Num (population c)),
           (''Wages (CF)'', Num (wages c)),
           (''Rents (CF)'', Num (rents c))]
      | None \<Rightarrow> [])"

definition chartData :: "LocationData list \<Rightarrow> LocationData list option \<Rightarrow> chart_row list" where
  "chartData data comparisonData =
     map (\<lambda>d. chart_row_of d (find_comp comparisonData d)) data"

text \<open>Reading a property of a row: \<^verbatim>\<open>row[key]\<close>, \<open>None\<close> for \<^verbatim>\<open>undefined\<close>.\<close>

definition row_get :: "chart_row \<Rightarrow> string \<Rightarrow> cell option" where
  "row_get row key = map_of row key"

definition row_keys :: "chart_row \<Rightarrow> string list" where
  "row_keys row = map fst row"

section \<open>JavaScript values used by the application\<close>

text \<open>
  What \<^verbatim>\<open>JSON.parse\<close> can return. The application declares the result of the two
  data services as \<^verbatim>\<open>SimulationResult\<close>, but the declaration is erased at run time:
  the state holds whatever value was parsed. \<^verbatim>\<open>null\<close> is also the initial value of
  the two result slots of the state.
\<close>

datatype json =
    JNull
  | JBool bool
  | JNumber real
  | JString string
  | JArray "json list"
  | JObject "(string \<times> json) list"

text \<open>JavaScript truthiness, as tested by \<^verbatim>\<open>!baselineData\<close> and \<^verbatim>\<open>baselineData && ...\<close>.\<close>

fun truthy :: "json \<Rightarrow> bool" where
  "truthy JNull = False"
| "truthy (JBool b) = b"
| "truthy (JNumber n) = (n \<noteq> 0)"
| "truthy (JString t) = (t \<noteq> [])"
| "truthy (JArray _) = True"
| "truthy (JObject _) = True"

text \<open>
  \<^verbatim>\<open>String.prototype.trim\<close> removes white space and line terminators from both ends.
  Texts are modelled as \<open>string\<close>, whose characters are the code points below 256; the
  white space among them is TAB, LF, VT, FF, CR, SP and NBSP.
\<close>

definition is_white_space :: "char \<Rightarrow> bool" where
  "is_white_space c = ((of_char c :: nat) \<in> {9, 10, 11, 12, 13, 32, 160})"

definition trim :: "string \<Rightarrow> string" where
  "trim t = rev (dropWhile is_white_space (rev (dropWhile is_white_space t)))"

text \<open>\<^verbatim>\<open>response.text || dflt\<close>: the default replaces \<^verbatim>\<open>undefined\<close> and the empty string.\<close>

definition text_or :: "string option \<Rightarrow> string \<Rightarrow> string" where
  "text_or t dflt = (case t of None \<Rightarrow> dflt | Some x \<Rightarrow> if x = [] then dflt else x)"

section \<open>The services (geminiService.ts)\<close>

text \<open>
  The external collaborator is opaque. A call of \<^verbatim>\<open>ai.models.generateContent\<close> either
  throws or answers with a response whose \<^verbatim>\<open>text\<close> may be \<^verbatim>\<open>undefined\<close>. The
  arguments of a service only build the prompt that the collaborator receives, so each
  service is modelled as a function of the collaborator's answer. \<^verbatim>\<open>JSON.parse\<close> is a
  built-in of the language: it is a parameter, \<open>None\<close> where it throws.
\<close>

datatype generateContent_result = Threw | Responded "string option"

datatype error = CollaboratorError | SyntaxError

definition generateModelLogic :: "generateContent_result \<Rightarrow> error + string" where
  "generateModelLogic res =
     (case res of
        Threw \<Rightarrow> Inl CollaboratorError
      | Responded t \<Rightarrow> Inr (text_or t ''No response generated.''))"

definition generateSyntheticData ::
  "(string \<Rightarrow> json option) \<Rightarrow> generateContent_result \<Rightarrow> error + json" where
  "generateSyntheticData JSON_parse res =
     (case res of
        Threw \<Rightarrow> Inl CollaboratorError
      | Responded t \<Rightarrow>
          (case JSON_parse (text_or t ''{}'') of
             None \<Rightarrow> Inl SyntaxError
           | Some v \<Rightarrow> Inr v))"

definition analyzeEquilibrium :: "generateContent_result \<Rightarrow> error + string" where
  "analyzeEquilibrium res =
     (case res of
        Threw \<Rightarrow> Inr ''Error generating analysis report.''
      | Responded t \<Rightarrow> Inr (text_or t ''Analysis could not be generated.''))"

definition runCounterfactual ::
  "(string \<Rightarrow> json option) \<Rightarrow> generateContent_result \<Rightarrow> error + json" where
  "runCounterfactual JSON_parse res =
     (case res of
        Threw \<Rightarrow> Inl CollaboratorError
      | Responded t \<Rightarrow>
          (case JSON_parse (text_or t ''{}'') of
             None \<Rightarrow> Inl SyntaxError
           | Some v \<Rightarrow> Inr v))"

section \<open>The workflow state and its handlers (App.tsx)\<close>

text \<open>The \<^verbatim>\<open>useState\<close> cells of the component, without the display mode of the model text.\<close>

record app_state =
  stage :: AppStage
  problemInput :: string
  isProcessing :: bool
  modelLogic :: string
  baselineData :: json
  analysisReport :: string
  counterfactualInput :: string
  counterfactualData :: json

definition initial_state :: app_state where
  "initial_state =
     \<lparr>stage = PROBLEM_DEFINITION,
      problemInput = ''Analyze the impact of a productivity shock in the largest city on population distribution.'',
      isProcessing = False,
      modelLogic = [],
      baselineData = JNull,
      analysisReport = [],
      counterfactualInput = ''Increase productivity in City A by 20%'',
      counterfactualData = JNull\<rparr>"

text \<open>
  What a handler does besides changing the state: the service calls it issues, with the
  arguments it passes, and the messages it shows with \<^verbatim>\<open>alert\<close>.
\<close>

datatype request =
    ModelLogicRequest string
  | SyntheticDataRequest string
  | AnalysisRequest string json
  | CounterfactualRequest json string

datatype effect = Call request | Alert string

text \<open>
  An asynchronous handler runs in two parts. The first part runs at the click, up to the
  \<^verbatim>\<open>await\<close>: it returns the state and the request issued, or no request when the handler
  has returned. The second part runs when the promise of the service settles, on the
  state of that moment: it only writes values, so it needs nothing of the first part.
\<close>

definition handleProblemSubmit_start :: "app_state \<Rightarrow> app_state \<times> request option" where
  "handleProblemSubmit_start s =
     (if trim (problemInput s) = [] then (s, None)
      else (s\<lparr>isProcessing := True\<rparr>, Some (ModelLogicRequest (problemInput s))))"

definition handleProblemSubmit_settle ::
  "app_state \<Rightarrow> error + string \<Rightarrow> app_state \<times> effect list" where
  "handleProblemSubmit_settle s out =
     (case out of
        Inr logic \<Rightarrow>
          (s\<lparr>modelLogic := logic, stage := MODEL_CONSTRUCTION, isProcessing := False\<rparr>, [])
      | Inl e \<Rightarrow>
          (s\<lparr>isProcessing := False\<rparr>,
           [Alert ''Error generating model. Please check API key or try again.'']))"

definition handleGenerateData_start :: "app_state \<Rightarrow> app_state \<times> request option" where
  "handleGenerateData_start s =
     (s\<lparr>isProcessing := True\<rparr>, Some (SyntheticDataRequest (modelLogic s)))"

definition handleGenerateData_settle ::
  "app_state \<Rightarrow> error + json \<Rightarrow> app_state \<times> effect list" where
  "handleGenerateData_settle s out =
     (case out of
        Inr data \<Rightarrow>
          (s\<lparr>baselineData := data, stage := DATA_GENERATION, isProcessing := False\<rparr>, [])
      | Inl e \<Rightarrow> (s\<lparr>isProcessing := False\<rparr>, [Alert ''Error simulating data.'']))"

text \<open>
  \<^verbatim>\<open>handleProceedToAnalysis\<close> awaits only when there is no report yet; otherwise it runs
  to its end at the click.
\<close>

definition handleProceedToAnalysis_start :: "app_state \<Rightarrow> app_state \<times> request option" where
  "handleProceedToAnalysis_start s =
     (if \<not> truthy (baselineData s) then (s, None)
      else if analysisReport s = []
      then (s\<lparr>isProcessing := True\<rparr>,
            Some (AnalysisRequest (modelLogic s) (baselineData s)))
      else (s\<lparr>isProcessing := True\<rparr>\<lparr>stage := ESTIMATION_ANALYSIS\<rparr>\<lparr>isProcessing := False\<rparr>,
            None))"

definition handleProceedToAnalysis_settle ::
  "app_state \<Rightarrow> error + string \<Rightarrow> app_state \<times> effect list" where
  "handleProceedToAnalysis_settle s out =
     (case out of
        Inr report \<Rightarrow>
          (s\<lparr>analysisReport := report, stage := ESTIMATION_ANALYSIS, isProcessing := False\<rparr>,
           [])
      | Inl e \<Rightarrow>
          (s\<lparr>isProcessing := False\<rparr>, [Alert ''Error generating analysis report.'']))"

definition handleProceedToCounterfactual :: "app_state \<Rightarrow> app_state" where
  "handleProceedToCounterfactual s = s\<lparr>stage := COUNTERFACTUAL\<rparr>"

definition handleRunCounterfactual_start :: "app_state \<Rightarrow> app_state \<times> request option" where
  "handleRunCounterfactual_start s =
     (if \<not> truthy (baselineData s) \<or> trim (counterfactualInput s) = [] then (s, None)
      else (s\<lparr>isProcessing := True\<rparr>,
            Some (CounterfactualRequest (baselineData s) (counterfactualInput s))))"

definition handleRunCounterfactual_settle ::
  "app_state \<Rightarrow> error + json \<Rightarrow> app_state \<times> effect list" where
  "handleRunCounterfactual_settle s out =
     (case out of
        Inr cfData \<Rightarrow> (s\<lparr>counterfactualData := cfData, isProcessing := False\<rparr>, [])
      | Inl e \<Rightarrow> (s\<lparr>isProcessing := False\<rparr>, [Alert ''Error running counterfactual.'']))"

text \<open>
  A handler run from the click to its end with nothing in between: the state it leaves
  and its effects in order. \<open>out\<close> is how the promise of the service settles.
\<close>

definition run_handler ::
  "(app_state \<Rightarrow> app_state \<times> request option) \<Rightarrow>
   (app_state \<Rightarrow> 'r \<Rightarrow> app_state \<times> effect list) \<Rightarrow>
   app_state \<Rightarrow> 'r \<Rightarrow> app_state \<times> effect list" where
  "run_handler start settle s out =
     (case start s of
        (s1, None) \<Rightarrow> (s1, [])
      | (s1, Some req) \<Rightarrow>
          (case settle s1 out of (s2, es) \<Rightarrow> (s2, Call req # es)))"

definition handleProblemSubmit :: "app_state \<Rightarrow> error + string \<Rightarrow> app_state \<times> effect list" where
  "handleProblemSubmit = run_handler handleProblemSubmit_start handleProblemSubmit_settle"

definition handleGenerateData :: "app_state \<Rightarrow> error + json \<Rightarrow> app_state \<times> effect list" where
  "handleGenerateData = run_handler handleGenerateData_start handleGenerateData_settle"

definition handleProceedToAnalysis ::
  "app_state \<Rightarrow> error + string \<Rightarrow> app_state \<times> effect list" where
  "handleProceedToAnalysis =
     run_handler handleProceedToAnalysis_start handleProceedToAnalysis_settle"

definition handleRunCounterfactual ::
  "app_state \<Rightarrow> error + json \<Rightarrow> app_state \<times> effect list" where
  "handleRunCounterfactual =
     run_handler handleRunCounterfactual_start handleRunCounterfactual_settle"


text \<open>The part of the state that the workflow produces: everything but the in-flight flag
  and the two input texts.\<close>

definition workflow_data ::
  "app_state \<Rightarrow> AppStage \<times> string \<times> json \<times> string \<times> json" where
  "workflow_data s =
     (stage s, modelLogic s, baselineData s, analysisReport s, counterfactualData s)"

section \<open>The order of the stages (StageNavigator.tsx)\<close>

text \<open>The list \<^verbatim>\<open>STAGES\<close> of the navigator, and the stage that follows a stage in it.\<close>

definition STAGES :: "AppStage list" where
  "STAGES =
     [PROBLEM_DEFINITION, MODEL_CONSTRUCTION, DATA_GENERATION, ESTIMATION_ANALYSIS,
      COUNTERFACTUAL]"

fun successor_in :: "AppStage list \<Rightarrow> AppStage \<Rightarrow> AppStage option" where
  "successor_in (a # b # rest) x = (if x = a then Some b else successor_in (b # rest) x)"
| "successor_in _ x = None"

definition next_stage :: "AppStage \<Rightarrow> AppStage option" where
  "next_stage = successor_in STAGES"

section \<open>The view: which controls can be used (App.tsx, the rendered tree)\<close>

text \<open>
  The five buttons that call a handler. A button can be clicked when the conditions
  around it in the rendered tree hold and it is not \<^verbatim>\<open>disabled\<close>. The conditions are
  those written in the tree, outermost first. A render that throws shows no button at
  all, so the buttons that can be clicked in a state are among those given here.
\<close>

datatype control =
    BuildModel
  | GenerateSyntheticData
  | ProceedToAnalysis
  | RunCounterfactualAnalysis
  | RunSimulation

fun available :: "app_state \<Rightarrow> control \<Rightarrow> bool" where
  "available s BuildModel = (stage s = PROBLEM_DEFINITION \<and> \<not> isProcessing s)"
| "available s GenerateSyntheticData = (stage s = MODEL_CONSTRUCTION \<and> \<not> isProcessing s)"
| "available s ProceedToAnalysis =
     ((stage s = DATA_GENERATION \<or> stage s = ESTIMATION_ANALYSIS) \<and> truthy (baselineData s) \<and>
      stage s = DATA_GENERATION \<and> \<not> isProcessing s)"
| "available s RunCounterfactualAnalysis =
     ((stage s = DATA_GENERATION \<or> stage s = ESTIMATION_ANALYSIS) \<and> truthy (baselineData s) \<and>
      stage s = ESTIMATION_ANALYSIS)"
| "available s RunSimulation =
     (stage s = COUNTERFACTUAL \<and> truthy (baselineData s) \<and> \<not> isProcessing s)"

text \<open>The handler behind each button, up to its \<^verbatim>\<open>await\<close>.\<close>

fun click :: "app_state \<Rightarrow> control \<Rightarrow> app_state \<times> request option" where
  "click s BuildModel = handleProblemSubmit_start s"
| "click s GenerateSyntheticData = handleGenerateData_start s"
| "click s ProceedToAnalysis = handleProceedToAnalysis_start s"
| "click s RunCounterfactualAnalysis = (handleProceedToCounterfactual s, None)"
| "click s RunSimulation = handleRunCounterfactual_start s"

text \<open>The rest of the handler that issued a request, once the collaborator has answered.\<close>

fun settle ::
  "(string \<Rightarrow> json option) \<Rightarrow> request \<Rightarrow> generateContent_result \<Rightarrow> app_state \<Rightarrow>
   app_state \<times> effect list" where
  "settle JSON_parse (ModelLogicRequest _) res s =
     handleProblemSubmit_settle s (generateModelLogic res)"
| "settle JSON_parse (SyntheticDataRequest _) res s =
     handleGenerateData_settle s (generateSyntheticData JSON_parse res)"
| "settle JSON_parse (AnalysisRequest _ _) res s =
     handleProceedToAnalysis_settle s (analyzeEquilibrium res)"
| "settle JSON_parse (CounterfactualRequest _ _) res s =
     handleRunCounterfactual_settle s (runCounterfactual JSON_parse res)"

text \<open>
  The running application: the state and the requests whose answer is outstanding. Its
  events are a click on a button that can be clicked, an edit of one of the two text
  areas where it is shown, and the answer of the collaborator to an outstanding request.
  An event that cannot happen gives \<open>None\<close>.
\<close>

record system =
  app :: app_state
  pending :: "request list"

datatype event =
    Click control
  | EditProblem string
  | EditShock string
  | Answer nat generateContent_result

fun fire :: "(string \<Rightarrow> json option) \<Rightarrow> system \<Rightarrow> event \<Rightarrow> system option" where
  "fire JSON_parse \<sigma> (Click c) =
     (if available (app \<sigma>) c
      then (case click (app \<sigma>) c of
              (s', None) \<Rightarrow> Some \<lparr>app = s', pending = pending \<sigma>\<rparr>
            | (s', Some req) \<Rightarrow> Some \<lparr>app = s', pending = pending \<sigma> @ [req]\<rparr>)
      else None)"
| "fire JSON_parse \<sigma> (EditProblem t) =
     (if stage (app \<sigma>) = PROBLEM_DEFINITION
      then Some \<lparr>app = (app \<sigma>)\<lparr>problemInput := t\<rparr>, pending = pending \<sigma>\<rparr>
      else None)"
| "fire JSON_parse \<sigma> (EditShock t) =
     (if stage (app \<sigma>) = COUNTERFACTUAL \<and> truthy (baselineData (app \<sigma>))
      then Some \<lparr>app = (app \<sigma>)\<lparr>counterfactualInput := t\<rparr>, pending = pending \<sigma>\<rparr>
      else None)"
| "fire JSON_parse \<sigma> (Answer i res) =
     (if i < length (pending \<sigma>)
      then Some \<lparr>app = fst (settle JSON_parse (pending \<sigma> ! i) res (app \<sigma>)),
                 pending = take i (pending \<sigma>) @ drop (Suc i) (pending \<sigma>)\<rparr>
      else None)"

fun run :: "(string \<Rightarrow> json option) \<Rightarrow> system \<Rightarrow> event list \<Rightarrow> system option" where
  "run JSON_parse \<sigma> [] = Some \<sigma>"
| "run JSON_parse \<sigma> (e # es) =
     (case fire JSON_parse \<sigma> e of
        None \<Rightarrow> None
      | Some \<sigma>' \<Rightarrow> run JSON_parse \<sigma>' es)"

definition initial_system :: system where
  "initial_system = \<lparr>app = initial_state, pending = []\<rparr>"

text \<open>The stage at which the view lets each kind of request be issued.\<close>

fun issued_at :: "request \<Rightarrow> AppStage" where
  "issued_at (ModelLogicRequest _) = PROBLEM_DEFINITION"
| "issued_at (SyntheticDataRequest _) = MODEL_CONSTRUCTION"
| "issued_at (AnalysisRequest _ _) = DATA_GENERATION"
| "issued_at (CounterfactualRequest _ _) = COUNTERFACTUAL"

text \<open>
  The invariant of the running application: at most one request is outstanding, the
  in-flight flag is set exactly while one is, and the stage is still the one at which
  that request was issued.
\<close>

definition single_in_flight :: "system \<Rightarrow> bool" where
  "single_in_flight \<sigma> =
     (length (pending \<sigma>) \<le> 1 \<and>
      isProcessing (app \<sigma>) = (pending \<sigma> \<noteq> []) \<and>
      list_all (\<lambda>r. stage (app \<sigma>) = issued_at r) (pending \<sigma>))"



section \<open>The shape of a simulation result\<close>

text \<open>
  The shape that the specification (section 4.1) requires of a parsed value before it may
  enter the state: an object whose \<^verbatim>\<open>locations\<close> is a sequence of objects with the seven
  fields of a location, the five quantities being numbers, and whose \<^verbatim>\<open>parameters\<close> is
  an object; \<^verbatim>\<open>totalWelfare\<close> may be absent. The code has no function that tests this
  shape: the predicate follows the words of the specification and is used only to say of
  which values the code is silent.
\<close>

fun is_number :: "json \<Rightarrow> bool" where
  "is_number (JNumber _) = True"
| "is_number _ = False"

definition has_field :: "(string \<times> json) list \<Rightarrow> string \<Rightarrow> (json \<Rightarrow> bool) \<Rightarrow> bool" where
  "has_field fs k ok = (case map_of fs k of None \<Rightarrow> False | Some v \<Rightarrow> ok v)"

fun spec_valid_location :: "json \<Rightarrow> bool" where
  "spec_valid_location (JObject fs) =
     (has_field fs ''id'' (\<lambda>_. True) \<and> has_field fs ''name'' (\<lambda>_. True) \<and>
      has_field fs ''population'' is_number \<and> has_field fs ''wages'' is_number \<and>
      has_field fs ''rents'' is_number \<and> has_field fs ''amenity'' is_number \<and>
      has_field fs ''productivity'' is_number)"
| "spec_valid_location _ = False"

fun spec_valid_result :: "json \<Rightarrow> bool" where
  "spec_valid_result (JObject fs) =
     ((case map_of fs ''locations'' of
         Some (JArray ls) \<Rightarrow> list_all spec_valid_location ls
       | _ \<Rightarrow> False) \<and>
      (case map_of fs ''parameters'' of
         Some (JObject _) \<Rightarrow> True
       | _ \<Rightarrow> False))"
| "spec_valid_result _ = False"

section \<open>Example data\<close>

text \<open>The locations of the merge examples: one baseline city and three comparison records.\<close>

definition baseline_A :: LocationData where
  "baseline_A =
     \<lparr>id' = ''1'', name = ''A'', population = 100, wages = 10, rents = 5,
      amenity = 1, productivity = 1\<rparr>"

definition shocked_A :: LocationData where
  "shocked_A =
     \<lparr>id' = ''1'', name = ''A'', population = 120, wages = 12, rents = 6,
      amenity = 1, productivity = 6 / 5\<rparr>"

definition shocked_A_again :: LocationData where
  "shocked_A_again =
     \<lparr>id' = ''1'', name = ''A'', population = 130, wages = 13, rents = 7,
      amenity = 1, productivity = 6 / 5\<rparr>"

definition shocked_B :: LocationData where
  "shocked_B =
     \<lparr>id' = ''2'', name = ''B'', population = 80, wages = 9, rents = 4,
      amenity = 1, productivity = 1\<rparr>"

lemmas example_locations = baseline_A_def shocked_A_def shocked_A_again_def shocked_B_def

text \<open>
  A simulation result of the shape that the prompt of the data service asks for, and
  the states of a session: after the model text has arrived, after the baseline has
  arrived, and while the first request is outstanding.
\<close>

definition example_result :: json where
  "example_result =
     JObject
       [(''description'', JString ''Brief summary of the equilibrium''),
        (''parameters'', JObject [(''alpha'', JNumber (3 / 10)), (''sigma'', JNumber 4)]),
        (''locations'',
           JArray
             [JObject
                [(''id'', JString ''1''), (''name'', JString ''City A''),
                 (''population'', JNumber 100), (''wages'', JNumber 10),
                 (''rents'', JNumber 5), (''amenity'', JNumber 1),
                 (''productivity'', JNumber 1)]]),
        (''totalWelfare'', JNumber 1000)]"

definition modelled_state :: app_state where
  "modelled_state = initial_state\<lparr>modelLogic := ''model'', stage := MODEL_CONSTRUCTION\<rparr>"

definition simulated_state :: app_state where
  "simulated_state = modelled_state\<lparr>baselineData := example_result, stage := DATA_GENERATION\<rparr>"

definition busy_system :: system where
  "busy_system =
     \<lparr>app = initial_state\<lparr>isProcessing := True\<rparr>,
      pending = [ModelLogicRequest (problemInput initial_state)]\<rparr>"

definition modelled_system :: system where
  "modelled_system = \<lparr>app = modelled_state, pending = []\<rparr>"





lemmas example_states =
  initial_state_def modelled_state_def simulated_state_def busy_system_def
  modelled_system_def initial_system_def

section \<open>Properties of the merge\<close>

lemma find_comp_None_iff:
  "(find_comp cf d = None) = (\<not> (\<exists>cs c. cf = Some cs \<and> c \<in> set cs \<and> id' c = id' d))"
  by (cases cf) (auto simp: find_comp_def find_None_iff)

lemma find_comp_first:
  "find_comp (Some cs) d =
     (case filter (\<lambda>c. id' c = id' d) cs of [] \<Rightarrow> None | c # _ \<Rightarrow> Some c)"
  by (induction cs) (auto simp: find_comp_def)

lemma find_filter_superset:
  "(\<And>x. P x \<Longrightarrow> Q x) \<Longrightarrow> find P (filter Q xs) = find P xs"
  by (induction xs) auto

lemma row_get_baseline:
  "row_get (chart_row_of d f) ''name'' = Some (Str (name d))"
  "row_get (chart_row_of d f) ''Population'' = Some (Num (population d))"
  "row_get (chart_row_of d f) ''Wages'' = Some (Num (wages d))"
  "row_get (chart_row_of d f) ''Rents'' = Some (Num (rents d))"
  by (simp_all add: row_get_def chart_row_of_def)

lemma row_get_cf:
  "row_get (chart_row_of d f) ''Pop (CF)'' = map_option (\<lambda>c. Num (population c)) f"
  "row_get (chart_row_of d f) ''Wages (CF)'' = map_option (\<lambda>c. Num (wages c)) f"
  "row_get (chart_row_of d f) ''Rents (CF)'' = map_option (\<lambda>c. Num (rents c)) f"
  by (simp_all add: row_get_def chart_row_of_def split: option.splits)

lemma chartData_nth:
  "i < length data \<Longrightarrow>
   chartData data cf ! i = chart_row_of (data ! i) (find_comp cf (data ! i))"
  by (simp add: chartData_def)

text \<open>
  C2. The merge gives one row per baseline record, in the order of the baseline: the row
  at position \<open>i\<close> carries the name, population, wages and rents of the baseline record
  at position \<open>i\<close>. Each of the three counterfactual properties is present in that row
  if and only if a comparison sequence is given and holds a record with the id of that
  baseline record; it then carries the population, the wages and the rents of that
  comparison record, the first in the sequence if several have the id. Without a
  comparison sequence the result is that of the empty one, and comparison records whose
  id is the id of no baseline record can be removed without changing the result.
\<close>

theorem chartData_one_row_per_baseline:
  "length (chartData data cf) = length data \<and>
   (\<forall>i < length data.
      row_get (chartData data cf ! i) ''name'' = Some (Str (name (data ! i))) \<and>
      row_get (chartData data cf ! i) ''Population'' = Some (Num (population (data ! i))) \<and>
      row_get (chartData data cf ! i) ''Wages'' = Some (Num (wages (data ! i))) \<and>
      row_get (chartData data cf ! i) ''Rents'' = Some (Num (rents (data ! i))) \<and>
      (\<forall>k \<in> {''Pop (CF)'', ''Wages (CF)'', ''Rents (CF)''}.
         (row_get (chartData data cf ! i) k \<noteq> None) =
         (\<exists>cs c. cf = Some cs \<and> c \<in> set cs \<and> id' c = id' (data ! i))) \<and>
      (\<forall>cs c rest.
         cf = Some cs \<and> filter (\<lambda>x. id' x = id' (data ! i)) cs = c # rest \<longrightarrow>
         row_get (chartData data cf ! i) ''Pop (CF)'' = Some (Num (population c)) \<and>
         row_get (chartData data cf ! i) ''Wages (CF)'' = Some (Num (wages c)) \<and>
         row_get (chartData data cf ! i) ''Rents (CF)'' = Some (Num (rents c)))) \<and>
   chartData data None = chartData data (Some []) \<and>
   chartData data (Some cs) =
     chartData data (Some (filter (\<lambda>c. id' c \<in> id' ` set data) cs))"
proof -
  have len: "length (chartData data cf) = length data"
    by (simp add: chartData_def)
  have base: "row_get (chartData data cf ! i) ''name'' = Some (Str (name (data ! i))) \<and>
      row_get (chartData data cf ! i) ''Population'' = Some (Num (population (data ! i))) \<and>
      row_get (chartData data cf ! i) ''Wages'' = Some (Num (wages (data ! i))) \<and>
      row_get (chartData data cf ! i) ''Rents'' = Some (Num (rents (data ! i)))"
    if "i < length data" for i
    using that by (simp add: chartData_nth row_get_baseline)
  have present: "\<forall>k \<in> {''Pop (CF)'', ''Wages (CF)'', ''Rents (CF)''}.
         (row_get (chartData data cf ! i) k \<noteq> None) =
         (\<exists>cs c. cf = Some cs \<and> c \<in> set cs \<and> id' c = id' (data ! i))"
    if "i < length data" for i
    using that find_comp_None_iff [of cf "data ! i"]
    by (cases "find_comp cf (data ! i)") (simp_all add: chartData_nth row_get_cf)
  have vals: "row_get (chartData data cf ! i) ''Pop (CF)'' = Some (Num (population c)) \<and>
         row_get (chartData data cf ! i) ''Wages (CF)'' = Some (Num (wages c)) \<and>
         row_get (chartData data cf ! i) ''Rents (CF)'' = Some (Num (rents c))"
    if "i < length data"
      and "cf = Some xs \<and> filter (\<lambda>x. id' x = id' (data ! i)) xs = c # rest"
    for i xs c rest
  proof -
    from that(2) have "find_comp cf (data ! i) = Some c"
      by (simp add: find_comp_first)
    with that(1) show ?thesis
      by (simp add: chartData_nth row_get_cf)
  qed
  have absent: "chartData data None = chartData data (Some [])"
    by (simp add: chartData_def find_comp_def)
  have "find_comp (Some (filter (\<lambda>c. id' c \<in> id' ` set data) cs)) d = find_comp (Some cs) d"
    if "d \<in> set data" for d
    using that by (simp add: find_comp_def find_filter_superset)
  then have unmatched: "chartData data (Some cs) =
     chartData data (Some (filter (\<lambda>c. id' c \<in> id' ` set data) cs))"
    by (simp add: chartData_def)
  have rows: "\<forall>i < length data.
      row_get (chartData data cf ! i) ''name'' = Some (Str (name (data ! i))) \<and>
      row_get (chartData data cf ! i) ''Population'' = Some (Num (population (data ! i))) \<and>
      row_get (chartData data cf ! i) ''Wages'' = Some (Num (wages (data ! i))) \<and>
      row_get (chartData data cf ! i) ''Rents'' = Some (Num (rents (data ! i))) \<and>
      (\<forall>k \<in> {''Pop (CF)'', ''Wages (CF)'', ''Rents (CF)''}.
         (row_get (chartData data cf ! i) k \<noteq> None) =
         (\<exists>cs c. cf = Some cs \<and> c \<in> set cs \<and> id' c = id' (data ! i))) \<and>
      (\<forall>cs c rest.
         cf = Some cs \<and> filter (\<lambda>x. id' x = id' (data ! i)) cs = c # rest \<longrightarrow>
         row_get (chartData data cf ! i) ''Pop (CF)'' = Some (Num (population c)) \<and>
         row_get (chartData data cf ! i) ''Wages (CF)'' = Some (Num (wages c)) \<and>
         row_get (chartData data cf ! i) ''Rents (CF)'' = Some (Num (rents c)))"
  proof (intro allI impI)
    fix i assume i: "i < length data"
    note b = base [OF i]
    show "row_get (chartData data cf ! i) ''name'' = Some (Str (name (data ! i))) \<and>
      row_get (chartData data cf ! i) ''Population'' = Some (Num (population (data ! i))) \<and>
      row_get (chartData data cf ! i) ''Wages'' = Some (Num (wages (data ! i))) \<and>
      row_get (chartData data cf ! i) ''Rents'' = Some (Num (rents (data ! i))) \<and>
      (\<forall>k \<in> {''Pop (CF)'', ''Wages (CF)'', ''Rents (CF)''}.
         (row_get (chartData data cf ! i) k \<noteq> None) =
         (\<exists>cs c. cf = Some cs \<and> c \<in> set cs \<and> id' c = id' (data ! i))) \<and>
      (\<forall>cs c rest.
         cf = Some cs \<and> filter (\<lambda>x. id' x = id' (data ! i)) cs = c # rest \<longrightarrow>
         row_get (chartData data cf ! i) ''Pop (CF)'' = Some (Num (population c)) \<and>
         row_get (chartData data cf ! i) ''Wages (CF)'' = Some (Num (wages c)) \<and>
         row_get (chartData data cf ! i) ''Rents (CF)'' = Some (Num (rents c)))"
    proof (intro conjI)
      show "row_get (chartData data cf ! i) ''name'' = Some (Str (name (data ! i)))"
        by (rule b [THEN conjunct1])
      show "row_get (chartData data cf ! i) ''Population'' = Some (Num (population (data ! i)))"
        by (rule b [THEN conjunct2, THEN conjunct1])
      show "row_get (chartData data cf ! i) ''Wages'' = Some (Num (wages (data ! i)))"
        by (rule b [THEN conjunct2, THEN conjunct2, THEN conjunct1])
      show "row_get (chartData data cf ! i) ''Rents'' = Some (Num (rents (data ! i)))"
        by (rule b [THEN conjunct2, THEN conjunct2, THEN conjunct2])
      show "\<forall>k \<in> {''Pop (CF)'', ''Wages (CF)'', ''Rents (CF)''}.
         (row_get (chartData data cf ! i) k \<noteq> None) =
         (\<exists>cs c. cf = Some cs \<and> c \<in> set cs \<and> id' c = id' (data ! i))"
        by (rule present [OF i])
      show "\<forall>cs c rest.
         cf = Some cs \<and> filter (\<lambda>x. id' x = id' (data ! i)) cs = c # rest \<longrightarrow>
         row_get (chartData data cf ! i) ''Pop (CF)'' = Some (Num (population c)) \<and>
         row_get (chartData data cf ! i) ''Wages (CF)'' = Some (Num (wages c)) \<and>
         row_get (chartData data cf ! i) ''Rents (CF)'' = Some (Num (rents c))"
        by (intro allI impI) (rule vals [OF i])
    qed
  qed
  from len rows absent unmatched show ?thesis
    by (intro conjI)
qed

text \<open>
  The theorem at the two examples of the specification: the comparison record with the
  id of the baseline record is attached with its values 120, 12 and 6, the one with
  another id is not.
\<close>

theorem chartData_one_row_per_baseline_witness:
  "length (chartData [baseline_A] (Some [shocked_B, shocked_A])) = 1 \<and>
   row_get (chartData [baseline_A] (Some [shocked_B, shocked_A]) ! 0) ''Population''
     = Some (Num 100) \<and>
   row_get (chartData [baseline_A] (Some [shocked_B, shocked_A]) ! 0) ''Pop (CF)'' \<noteq> None \<and>
   row_get (chartData [baseline_A] (Some [shocked_B, shocked_A]) ! 0) ''Pop (CF)''
     = Some (Num 120) \<and>
   row_get (chartData [baseline_A] (Some [shocked_B, shocked_A]) ! 0) ''Wages (CF)''
     = Some (Num 12) \<and>
   row_get (chartData [baseline_A] (Some [shocked_B, shocked_A]) ! 0) ''Rents (CF)''
     = Some (Num 6) \<and>
   chartData [baseline_A] (Some [shocked_B, shocked_A]) = chartData [baseline_A] (Some [shocked_A])"
proof -
  have i: "0 < length [baseline_A]" by simp
  have k: "''Pop (CF)'' \<in> {''Pop (CF)'', ''Wages (CF)'', ''Rents (CF)''}" by simp
  have m: "\<exists>cs c. Some [shocked_B, shocked_A] = Some cs \<and> c \<in> set cs \<and>
             id' c = id' ([baseline_A] ! 0)"
    by (rule exI [of _ "[shocked_B, shocked_A]"], rule exI [of _ shocked_A])
       (simp add: example_locations)
  have f: "filter (\<lambda>c. id' c \<in> id' ` set [baseline_A]) [shocked_B, shocked_A] = [shocked_A]"
    by (simp add: example_locations)
  have h: "Some [shocked_B, shocked_A] = Some [shocked_B, shocked_A] \<and>
           filter (\<lambda>x. id' x = id' ([baseline_A] ! 0)) [shocked_B, shocked_A] = shocked_A # []"
    by (simp add: example_locations)
  note t = chartData_one_row_per_baseline
             [of "[baseline_A]" "Some [shocked_B, shocked_A]" "[shocked_B, shocked_A]"]
  note rows = t [THEN conjunct2, THEN conjunct1, rule_format, OF i]
  note cfv = rows [THEN conjunct2, THEN conjunct2, THEN conjunct2, THEN conjunct2,
                   THEN conjunct2, rule_format, OF h]
  have "length (chartData [baseline_A] (Some [shocked_B, shocked_A])) = 1"
    using t [THEN conjunct1] by simp
  moreover
  have "row_get (chartData [baseline_A] (Some [shocked_B, shocked_A]) ! 0) ''Population''
          = Some (Num 100)"
    using rows [THEN conjunct2, THEN conjunct1] by (simp add: baseline_A_def)
  moreover
  have "row_get (chartData [baseline_A] (Some [shocked_B, shocked_A]) ! 0) ''Pop (CF)'' \<noteq> None"
    using rows [THEN conjunct2, THEN conjunct2, THEN conjunct2, THEN conjunct2,
                THEN conjunct1, rule_format, OF k] m
    by (simp only:)
  moreover
  have "row_get (chartData [baseline_A] (Some [shocked_B, shocked_A]) ! 0) ''Pop (CF)''
          = Some (Num 120)"
    using cfv [THEN conjunct1] by (simp add: shocked_A_def)
  moreover
  have "row_get (chartData [baseline_A] (Some [shocked_B, shocked_A]) ! 0) ''Wages (CF)''
          = Some (Num 12)"
    using cfv [THEN conjunct2, THEN conjunct1] by (simp add: shocked_A_def)
  moreover
  have "row_get (chartData [baseline_A] (Some [shocked_B, shocked_A]) ! 0) ''Rents (CF)''
          = Some (Num 6)"
    using cfv [THEN conjunct2, THEN conjunct2] by (simp add: shocked_A_def)
  moreover
  have "chartData [baseline_A] (Some [shocked_B, shocked_A])
          = chartData [baseline_A] (Some [shocked_A])"
    using t [THEN conjunct2, THEN conjunct2, THEN conjunct2] by (simp only: f)
  ultimately show ?thesis by (simp only: simp_thms)
qed

text \<open>
  C8 as stated fails: with two comparison records of id 1 the row of the baseline record
  of id 1 carries the values of the first of them (120, 12, 6), not those of the last
  (130, 13, 7).
\<close>

theorem chartData_duplicate_id_counterexample:
  "last (filter (\<lambda>c. id' c = id' baseline_A) [shocked_A, shocked_A_again]) = shocked_A_again \<and>
   chartData [baseline_A] (Some [shocked_A, shocked_A_again])
     \<noteq> [chart_row_of baseline_A (Some shocked_A_again)] \<and>
   chartData [baseline_A] (Some [shocked_A, shocked_A_again])
     = [[(''name'', Str ''A''), (''Population'', Num 100), (''Wages'', Num 10),
         (''Rents'', Num 5), (''Pop (CF)'', Num 120), (''Wages (CF)'', Num 12),
         (''Rents (CF)'', Num 6)]]"
  by (simp add: chartData_def find_comp_def chart_row_of_def example_locations)

text \<open>
  C8, amended. The merge is a total function of its two arguments, whatever ids repeat;
  when the comparison sequence holds several records with the id of a baseline record,
  the row of that baseline record carries the values of the first of them.
\<close>

theorem chartData_first_match:
  assumes "i < length data"
    and "filter (\<lambda>c. id' c = id' (data ! i)) cs = c # rest"
  shows "chartData data (Some cs) ! i = chart_row_of (data ! i) (Some c)"
  using assms by (simp add: chartData_nth find_comp_first)

theorem chartData_first_match_witness:
  "chartData [baseline_A] (Some [shocked_B, shocked_A, shocked_A_again]) ! 0
     = chart_row_of baseline_A (Some shocked_A)"
proof -
  have i: "0 < length [baseline_A]" by simp
  have f: "filter (\<lambda>c. id' c = id' ([baseline_A] ! 0)) [shocked_B, shocked_A, shocked_A_again]
             = shocked_A # [shocked_A_again]"
    by (simp add: example_locations)
  from chartData_first_match [OF i f] show ?thesis by simp
qed

text \<open>
  C10. The properties of the row at position \<open>i\<close> are, in this order, name, Population,
  Wages and Rents, followed by the three counterfactual ones exactly when a comparison
  record has the id of the baseline record at position \<open>i\<close>. No row has a property id,
  amenity or productivity, and the rows do not depend on the amenity and productivity
  of the baseline or of the comparison records.
\<close>

theorem chartData_row_keys:
  "(\<forall>i < length data.
      row_keys (chartData data cf ! i) =
        (if (\<exists>cs c. cf = Some cs \<and> c \<in> set cs \<and> id' c = id' (data ! i))
         then [''name'', ''Population'', ''Wages'', ''Rents'',
               ''Pop (CF)'', ''Wages (CF)'', ''Rents (CF)'']
         else [''name'', ''Population'', ''Wages'', ''Rents''])) \<and>
   (\<forall>row \<in> set (chartData data cf).
      ''id'' \<notin> set (row_keys row) \<and> ''amenity'' \<notin> set (row_keys row) \<and>
      ''productivity'' \<notin> set (row_keys row)) \<and>
   chartData (map (\<lambda>d. d\<lparr>amenity := a, productivity := p\<rparr>) data)
             (map_option (map (\<lambda>c. c\<lparr>amenity := a', productivity := p'\<rparr>)) cf)
     = chartData data cf"
proof (intro conjI allI impI ballI)
  fix i assume i: "i < length data"
  show "row_keys (chartData data cf ! i) =
        (if (\<exists>cs c. cf = Some cs \<and> c \<in> set cs \<and> id' c = id' (data ! i))
         then [''name'', ''Population'', ''Wages'', ''Rents'',
               ''Pop (CF)'', ''Wages (CF)'', ''Rents (CF)'']
         else [''name'', ''Population'', ''Wages'', ''Rents''])"
    using i find_comp_None_iff [of cf "data ! i"]
    by (cases "find_comp cf (data ! i)")
       (simp_all add: chartData_nth row_keys_def chart_row_of_def)
next
  fix row assume "row \<in> set (chartData data cf)"
  then obtain d where row: "row = chart_row_of d (find_comp cf d)"
    by (auto simp: chartData_def)
  show "''id'' \<notin> set (row_keys row)" and "''amenity'' \<notin> set (row_keys row)"
    and "''productivity'' \<notin> set (row_keys row)"
    by (cases "find_comp cf d"; simp add: row row_keys_def chart_row_of_def)+
next
  have f: "find_comp (map_option (map (\<lambda>c. c\<lparr>amenity := a', productivity := p'\<rparr>)) cf)
             (d\<lparr>amenity := a, productivity := p\<rparr>)
           = map_option (\<lambda>c. c\<lparr>amenity := a', productivity := p'\<rparr>) (find_comp cf d)" for d
  proof (cases cf)
    case None
    then show ?thesis by (simp add: find_comp_def)
  next
    case (Some cs)
    have "find (\<lambda>c. id' c = id' d) (map (\<lambda>c. c\<lparr>amenity := a', productivity := p'\<rparr>) cs)
          = map_option (\<lambda>c. c\<lparr>amenity := a', productivity := p'\<rparr>)
              (find (\<lambda>c. id' c = id' d) cs)"
      by (induction cs) auto
    with Some show ?thesis by (simp add: find_comp_def)
  qed
  have r: "chart_row_of (d\<lparr>amenity := a, productivity := p\<rparr>)
             (map_option (\<lambda>c. c\<lparr>amenity := a', productivity := p'\<rparr>) x)
           = chart_row_of d x" for d x
    by (cases x) (simp_all add: chart_row_of_def)
  show "chartData (map (\<lambda>d. d\<lparr>amenity := a, productivity := p\<rparr>) data)
             (map_option (map (\<lambda>c. c\<lparr>amenity := a', productivity := p'\<rparr>)) cf)
     = chartData data cf"
    by (simp add: chartData_def f r comp_def)
qed

theorem chartData_row_keys_witness:
  "row_keys (chartData [baseline_A] (Some [shocked_A]) ! 0)
     = [''name'', ''Population'', ''Wages'', ''Rents'',
        ''Pop (CF)'', ''Wages (CF)'', ''Rents (CF)''] \<and>
   ''amenity'' \<notin> set (row_keys (chart_row_of baseline_A (Some shocked_A)))"
proof -
  have i: "0 < length [baseline_A]" by simp
  have m: "\<exists>cs c. Some [shocked_A] = Some cs \<and> c \<in> set cs \<and> id' c = id' ([baseline_A] ! 0)"
    by (rule exI [of _ "[shocked_A]"], rule exI [of _ shocked_A]) (simp add: example_locations)
  have r: "chart_row_of baseline_A (Some shocked_A)
             \<in> set (chartData [baseline_A] (Some [shocked_A]))"
    by (simp add: chartData_def find_comp_def example_locations)
  note t = chartData_row_keys [of "[baseline_A]" "Some [shocked_A]"]
  have "row_keys (chartData [baseline_A] (Some [shocked_A]) ! 0)
     = [''name'', ''Population'', ''Wages'', ''Rents'',
        ''Pop (CF)'', ''Wages (CF)'', ''Rents (CF)'']"
    using t [THEN conjunct1, rule_format, OF i] m by (simp only: if_True)
  moreover
  have "''amenity'' \<notin> set (row_keys (chart_row_of baseline_A (Some shocked_A)))"
    by (rule t [THEN conjunct2, THEN conjunct1, rule_format, OF r, THEN conjunct2,
                THEN conjunct1])
  ultimately show ?thesis by (simp only: simp_thms)
qed

section \<open>Properties of the handlers\<close>

lemmas handler_defs =
  handleProblemSubmit_def handleGenerateData_def handleProceedToAnalysis_def
  handleRunCounterfactual_def run_handler_def
  handleProblemSubmit_start_def handleProblemSubmit_settle_def
  handleGenerateData_start_def handleGenerateData_settle_def
  handleProceedToAnalysis_start_def handleProceedToAnalysis_settle_def
  handleRunCounterfactual_start_def handleRunCounterfactual_settle_def
  handleProceedToCounterfactual_def

lemmas service_defs =
  generateModelLogic_def generateSyntheticData_def analyzeEquilibrium_def
  runCounterfactual_def

lemma next_stage_simps:
  "next_stage PROBLEM_DEFINITION = Some MODEL_CONSTRUCTION"
  "next_stage MODEL_CONSTRUCTION = Some DATA_GENERATION"
  "next_stage DATA_GENERATION = Some ESTIMATION_ANALYSIS"
  "next_stage ESTIMATION_ANALYSIS = Some COUNTERFACTUAL"
  "next_stage COUNTERFACTUAL = None"
  by (simp_all add: next_stage_def STAGES_def)

lemma trim_examples:
  "trim ''  '' = []"
  "trim (problemInput initial_state) \<noteq> []"
  "trim (counterfactualInput initial_state) \<noteq> []"
  by (simp_all add: trim_def is_white_space_def initial_state_def)

lemma truthy_example_result: "truthy example_result"
  by (simp add: example_result_def)

text \<open>
  C3 as stated fails. The empty object, which is what the data service parses when the
  response has no text, has neither \<^verbatim>\<open>locations\<close> nor \<^verbatim>\<open>parameters\<close>; the handler
  stores it as the baseline and advances the stage, and shows no message.
\<close>

theorem unvalidated_result_stored_counterexample:
  "\<not> spec_valid_result (JObject []) \<and>
   handleGenerateData modelled_state (Inr (JObject []))
     = (modelled_state\<lparr>baselineData := JObject [], stage := DATA_GENERATION\<rparr>,
        [Call (SyntheticDataRequest ''model'')])"
  by (simp add: handler_defs example_states)

text \<open>
  C3, amended. No validator stands between the collaborator and the state. The two data
  services return whatever \<^verbatim>\<open>JSON.parse\<close> makes of the response text, the text \<^verbatim>\<open>{}\<close>
  standing in for a missing or empty one, and fail only when the call or the parser
  throws. \<^verbatim>\<open>handleGenerateData\<close> stores any returned value unchanged as the baseline
  and advances to Data Generation; \<^verbatim>\<open>handleRunCounterfactual\<close>, once past its guard,
  stores any returned value unchanged as the counterfactual result. When the service
  fails, the stored results stay as they were.
\<close>

theorem parsed_value_stored_unvalidated:
  "generateSyntheticData P (Responded t)
     = (case P (text_or t ''{}'') of None \<Rightarrow> Inl SyntaxError | Some v \<Rightarrow> Inr v) \<and>
   runCounterfactual P (Responded t)
     = (case P (text_or t ''{}'') of None \<Rightarrow> Inl SyntaxError | Some v \<Rightarrow> Inr v) \<and>
   fst (handleGenerateData s (Inr v))
     = s\<lparr>baselineData := v, stage := DATA_GENERATION, isProcessing := False\<rparr> \<and>
   (truthy (baselineData s) \<and> trim (counterfactualInput s) \<noteq> [] \<longrightarrow>
      fst (handleRunCounterfactual s (Inr v))
        = s\<lparr>counterfactualData := v, isProcessing := False\<rparr>) \<and>
   baselineData (fst (handleGenerateData s (Inl e))) = baselineData s \<and>
   counterfactualData (fst (handleRunCounterfactual s (Inl e))) = counterfactualData s"
  by (simp add: handler_defs service_defs)

theorem parsed_value_stored_unvalidated_witness:
  "truthy (baselineData simulated_state) \<and>
   trim (counterfactualInput simulated_state) \<noteq> [] \<and>
   fst (handleRunCounterfactual simulated_state (Inr (JString ''no result'')))
     = simulated_state\<lparr>counterfactualData := JString ''no result'', isProcessing := False\<rparr>"
proof -
  have g: "truthy (baselineData simulated_state) \<and>
           trim (counterfactualInput simulated_state) \<noteq> []"
    using trim_examples(3) by (simp add: simulated_state_def modelled_state_def truthy_example_result)
  note t = parsed_value_stored_unvalidated
             [of Map.empty None simulated_state "JString ''no result''" CollaboratorError]
  from t [THEN conjunct2, THEN conjunct2, THEN conjunct2, THEN conjunct1, rule_format, OF g] g
  show ?thesis by (simp only: simp_thms)
qed

text \<open>
  C4 fails on the code for \<^verbatim>\<open>proceedToAnalysis\<close>: with a baseline, no report yet and
  a collaborator call that throws, the handler stores the text that
  \<^verbatim>\<open>analyzeEquilibrium\<close> returns in place of the failure as the analysis report and
  advances to Estimation/Analysis, where C4 requires stage and report to stay as they
  were.
\<close>

theorem analysis_failure_commits_error_report:
  "workflow_data simulated_state
     = (DATA_GENERATION, ''model'', example_result, [], JNull) \<and>
   workflow_data (fst (handleProceedToAnalysis simulated_state (analyzeEquilibrium Threw)))
     = (ESTIMATION_ANALYSIS, ''model'', example_result,
        ''Error generating analysis report.'', JNull)"
  by (simp add: workflow_data_def handler_defs analyzeEquilibrium_def example_states
                truthy_example_result)

text \<open>
  The other three operations do leave the workflow data as it was when the collaborator
  call throws.
\<close>

lemma collaborator_failure_keeps_workflow_data:
  "workflow_data (fst (handleProblemSubmit s (generateModelLogic Threw))) = workflow_data s"
  "workflow_data (fst (handleGenerateData s (generateSyntheticData P Threw))) = workflow_data s"
  "workflow_data (fst (handleRunCounterfactual s (runCounterfactual P Threw))) = workflow_data s"
  by (simp_all add: workflow_data_def handler_defs service_defs)

text \<open>
  C7 as stated fails in one respect: with a blank text the handler returns at once and
  nothing is signalled. Its run has no effect at all, in particular no \<^verbatim>\<open>alert\<close>, the
  only way in which the handlers report a failure.
\<close>

theorem blank_input_no_error_counterexample:
  "trim (problemInput (initial_state\<lparr>problemInput := ''  ''\<rparr>)) = [] \<and>
   snd (handleProblemSubmit (initial_state\<lparr>problemInput := ''  ''\<rparr>) (Inl CollaboratorError)) = [] \<and>
   trim (counterfactualInput (simulated_state\<lparr>counterfactualInput := ''  ''\<rparr>)) = [] \<and>
   snd (handleRunCounterfactual (simulated_state\<lparr>counterfactualInput := ''  ''\<rparr>)
          (Inl CollaboratorError)) = []"
  by (simp add: handler_defs trim_examples)

text \<open>
  C7, amended. When the problem text is blank, that is empty once white space is trimmed
  from both ends, \<^verbatim>\<open>handleProblemSubmit\<close> returns without any effect: no call, no
  message, the state as it was. \<^verbatim>\<open>handleRunCounterfactual\<close> does the same when the
  description of the shock is blank.
\<close>

theorem blank_input_returns_silently:
  "(trim (problemInput s) = [] \<longrightarrow> handleProblemSubmit s out = (s, [])) \<and>
   (trim (counterfactualInput s) = [] \<longrightarrow> handleRunCounterfactual s out' = (s, []))"
  by (simp add: handler_defs)

theorem blank_input_returns_silently_witness:
  "trim (problemInput (modelled_state\<lparr>problemInput := ''  ''\<rparr>)) = [] \<and>
   handleProblemSubmit (modelled_state\<lparr>problemInput := ''  ''\<rparr>) (Inr ''another model'')
     = (modelled_state\<lparr>problemInput := ''  ''\<rparr>, []) \<and>
   trim (counterfactualInput (simulated_state\<lparr>counterfactualInput := ''  ''\<rparr>)) = [] \<and>
   handleRunCounterfactual (simulated_state\<lparr>counterfactualInput := ''  ''\<rparr>) (Inr example_result)
     = (simulated_state\<lparr>counterfactualInput := ''  ''\<rparr>, [])"
proof -
  have p: "trim (problemInput (modelled_state\<lparr>problemInput := ''  ''\<rparr>)) = []"
    by (simp add: trim_examples)
  have c: "trim (counterfactualInput (simulated_state\<lparr>counterfactualInput := ''  ''\<rparr>)) = []"
    by (simp add: trim_examples)
  note t = blank_input_returns_silently
  from t [of "modelled_state\<lparr>problemInput := ''  ''\<rparr>" "Inr ''another model''",
          THEN conjunct1, rule_format, OF p]
       t [of "simulated_state\<lparr>counterfactualInput := ''  ''\<rparr>" _ "Inr example_result",
          THEN conjunct2, rule_format, OF c]
       p c
  show ?thesis by (simp only: simp_thms)
qed

text \<open>
  C9. When the collaborator call throws, \<^verbatim>\<open>analyzeEquilibrium\<close> returns the fixed text
  ``Error generating analysis report.'' as its result. With a baseline and no report yet,
  \<^verbatim>\<open>handleProceedToAnalysis\<close> then stores that text as the analysis report and sets the
  stage to Estimation/Analysis, after the one call and without a message.
\<close>

theorem analyzeEquilibrium_swallows_failure:
  "analyzeEquilibrium Threw = Inr ''Error generating analysis report.'' \<and>
   (truthy (baselineData s) \<and> analysisReport s = [] \<longrightarrow>
      handleProceedToAnalysis s (analyzeEquilibrium Threw)
        = (s\<lparr>analysisReport := ''Error generating analysis report.'',
              stage := ESTIMATION_ANALYSIS, isProcessing := False\<rparr>,
           [Call (AnalysisRequest (modelLogic s) (baselineData s))]))"
  by (simp add: handler_defs analyzeEquilibrium_def)

theorem analyzeEquilibrium_swallows_failure_witness:
  "truthy (baselineData simulated_state) \<and> analysisReport simulated_state = [] \<and>
   handleProceedToAnalysis simulated_state (analyzeEquilibrium Threw)
     = (simulated_state\<lparr>analysisReport := ''Error generating analysis report.'',
                         stage := ESTIMATION_ANALYSIS, isProcessing := False\<rparr>,
        [Call (AnalysisRequest ''model'' example_result)])"
proof -
  have g: "truthy (baselineData simulated_state) \<and> analysisReport simulated_state = []"
    by (simp add: example_states truthy_example_result)
  have m: "modelLogic simulated_state = ''model''" "baselineData simulated_state = example_result"
    by (simp_all add: example_states)
  from analyzeEquilibrium_swallows_failure [of simulated_state, THEN conjunct2, rule_format, OF g] g
  show ?thesis by (simp only: m simp_thms)
qed

section \<open>Properties of the running application\<close>

text \<open>What the second part of a handler does to the stage and to the in-flight flag.\<close>

lemma settle_flag: "\<not> isProcessing (fst (settle P r res s))"
  by (cases r; cases res)
     (simp_all add: handler_defs service_defs split: option.splits)

lemma settle_stage:
  "stage s = issued_at r \<Longrightarrow>
   stage (fst (settle P r res s)) = stage s \<or>
   next_stage (stage s) = Some (stage (fst (settle P r res s)))"
  by (cases r; cases res)
     (simp_all add: handler_defs service_defs next_stage_simps split: option.splits)

lemma click_stage:
  "available s c \<Longrightarrow>
   stage (fst (click s c)) = stage s \<or> next_stage (stage s) = Some (stage (fst (click s c)))"
  by (cases c) (simp_all add: handler_defs next_stage_simps)

lemma pending_single:
  assumes "single_in_flight \<sigma>" and "i < length (pending \<sigma>)"
  shows "i = 0 \<and> pending \<sigma> = [pending \<sigma> ! 0] \<and> stage (app \<sigma>) = issued_at (pending \<sigma> ! 0)"
proof -
  from assms obtain r where r: "pending \<sigma> = [r]"
    by (cases "pending \<sigma>") (auto simp: single_in_flight_def)
  with assms show ?thesis by (simp add: single_in_flight_def)
qed

lemma click_keeps_single:
  assumes "single_in_flight \<sigma>" and "available (app \<sigma>) c"
  shows "case click (app \<sigma>) c of
           (s', None) \<Rightarrow> single_in_flight \<lparr>app = s', pending = pending \<sigma>\<rparr>
         | (s', Some req) \<Rightarrow> single_in_flight \<lparr>app = s', pending = pending \<sigma> @ [req]\<rparr>"
proof (cases c)
  case RunCounterfactualAnalysis
  with assms have "stage (app \<sigma>) = ESTIMATION_ANALYSIS" by simp
  with assms(1) have "pending \<sigma> = []"
    by (cases "pending \<sigma>"; cases "hd (pending \<sigma>)") (auto simp: single_in_flight_def)
  with assms(1) RunCounterfactualAnalysis show ?thesis
    by (simp add: single_in_flight_def handler_defs)
qed (use assms in \<open>auto simp: single_in_flight_def handler_defs\<close>)

lemma fire_keeps_single:
  assumes "single_in_flight \<sigma>" and "fire P \<sigma> e = Some \<sigma>'"
  shows "single_in_flight \<sigma>'"
proof (cases e)
  case (Click c)
  with assms(2) have a: "available (app \<sigma>) c" by (simp split: if_splits)
  from click_keeps_single [OF assms(1) a] assms(2) Click a show ?thesis
    by (auto split: prod.splits option.splits)
next
  case (EditProblem t)
  with assms show ?thesis by (auto simp: single_in_flight_def split: if_splits)
next
  case (EditShock t)
  with assms show ?thesis by (auto simp: single_in_flight_def split: if_splits)
next
  case (Answer i res)
  with assms(2) have i: "i < length (pending \<sigma>)" by (simp split: if_splits)
  from pending_single [OF assms(1) i] obtain r where
    r: "i = 0" "pending \<sigma> = [r]" by blast
  with assms(2) Answer have "\<sigma>' = \<lparr>app = fst (settle P r res (app \<sigma>)), pending = []\<rparr>"
    by simp
  then show ?thesis by (simp add: single_in_flight_def settle_flag)
qed

lemma run_keeps_single:
  "single_in_flight \<sigma> \<Longrightarrow> run P \<sigma> es = Some \<sigma>' \<Longrightarrow> single_in_flight \<sigma>'"
proof (induction es arbitrary: \<sigma>)
  case Nil
  then show ?case by simp
next
  case (Cons e es)
  then show ?case by (auto split: option.splits dest: fire_keeps_single)
qed

lemma initial_single: "single_in_flight initial_system"
  by (simp add: single_in_flight_def initial_system_def initial_state_def)

lemma fire_stage:
  assumes "single_in_flight \<sigma>" and "fire P \<sigma> e = Some \<sigma>'"
  shows "stage (app \<sigma>') = stage (app \<sigma>) \<or>
         next_stage (stage (app \<sigma>)) = Some (stage (app \<sigma>'))"
proof (cases e)
  case (Click c)
  with assms(2) have a: "available (app \<sigma>) c" by (simp split: if_splits)
  from assms(2) Click a have "app \<sigma>' = fst (click (app \<sigma>) c)"
    by (auto split: prod.splits option.splits)
  with click_stage [OF a] show ?thesis by simp
next
  case (EditProblem t)
  with assms(2) show ?thesis by (auto split: if_splits)
next
  case (EditShock t)
  with assms(2) show ?thesis by (auto split: if_splits)
next
  case (Answer i res)
  with assms(2) have i: "i < length (pending \<sigma>)" by (simp split: if_splits)
  from pending_single [OF assms(1) i] obtain r where
    r: "i = 0" "pending \<sigma> = [r]" "stage (app \<sigma>) = issued_at r" by metis
  with assms(2) Answer have "app \<sigma>' = fst (settle P r res (app \<sigma>))" by auto
  with settle_stage [OF r(3)] show ?thesis by simp
qed

lemma initial_state_fields:
  "stage initial_state = PROBLEM_DEFINITION" "\<not> isProcessing initial_state"
  by (simp_all add: initial_state_def)

lemma first_click: "fire P initial_system (Click BuildModel) = Some busy_system"
  by (simp add: initial_system_def busy_system_def handleProblemSubmit_start_def
                trim_examples initial_state_fields)

lemma first_answer:
  "fire P busy_system (Answer 0 (Responded (Some ''model''))) = Some modelled_system"
  by (simp add: busy_system_def modelled_system_def modelled_state_def initial_state_def
                handleProblemSubmit_settle_def generateModelLogic_def text_or_def)

text \<open>
  C1 as stated fails. No handler looks at the current stage. From Problem Definition,
  whose successor is Model Construction, \<^verbatim>\<open>handleGenerateData\<close> with a successful
  service call sets the stage to Data Generation, and \<^verbatim>\<open>handleProceedToCounterfactual\<close>
  sets it to Counterfactual; neither shows a message.
\<close>

theorem stage_skips_without_error_counterexample:
  "next_stage (stage initial_state) = Some MODEL_CONSTRUCTION \<and>
   handleGenerateData initial_state (Inr example_result)
     = (initial_state\<lparr>baselineData := example_result, stage := DATA_GENERATION\<rparr>,
        [Call (SyntheticDataRequest [])]) \<and>
   handleProceedToCounterfactual initial_state = initial_state\<lparr>stage := COUNTERFACTUAL\<rparr>"
  by (simp add: handler_defs initial_state_def next_stage_simps)

text \<open>
  C1, amended. The handlers set their target stage without a test, and there is no
  error for an illegal transition; the order of the stages is kept by the view, which
  shows each button only at the stage that precedes the target of its handler. In every
  state that the running application reaches from its initial state, every event (a
  click on a button that can be clicked, an edit, an answer of the collaborator) leaves
  the stage as it is or moves it to the next stage of the order Problem Definition,
  Model Construction, Data Generation, Estimation/Analysis, Counterfactual.
\<close>

theorem stage_changes_to_successor_through_view:
  assumes "run P initial_system es = Some \<sigma>" and "fire P \<sigma> e = Some \<sigma>'"
  shows "stage (app \<sigma>') = stage (app \<sigma>) \<or>
         next_stage (stage (app \<sigma>)) = Some (stage (app \<sigma>'))"
  using fire_stage [OF run_keeps_single [OF initial_single assms(1)] assms(2)] .

theorem stage_changes_to_successor_through_view_witness:
  "run Map.empty initial_system [Click BuildModel] = Some busy_system \<and>
   fire Map.empty busy_system (Answer 0 (Responded (Some ''model''))) = Some modelled_system \<and>
   (stage (app modelled_system) = stage (app busy_system) \<or>
    next_stage (stage (app busy_system)) = Some (stage (app modelled_system)))"
proof -
  have r: "run Map.empty initial_system [Click BuildModel] = Some busy_system"
    by (simp add: first_click del: fire.simps)
  have f: "fire Map.empty busy_system (Answer 0 (Responded (Some ''model'')))
             = Some modelled_system"
    by (rule first_answer)
  from stage_changes_to_successor_through_view [OF r f] r f
  show ?thesis by (simp only: simp_thms)
qed

text \<open>
  C5 as stated fails. No handler looks at the in-flight flag. While the call of
  \<^verbatim>\<open>handleProblemSubmit\<close> is outstanding and the flag is set, \<^verbatim>\<open>handleGenerateData\<close>
  issues its own call and, when that succeeds, stores the baseline, sets the stage and
  clears the flag; no message is shown.
\<close>

theorem second_operation_while_busy_counterexample:
  "handleProblemSubmit_start initial_state
     = (app busy_system, Some (ModelLogicRequest (problemInput initial_state))) \<and>
   isProcessing (app busy_system) \<and>
   handleGenerateData (app busy_system) (Inr example_result)
     = (initial_state\<lparr>baselineData := example_result, stage := DATA_GENERATION\<rparr>,
        [Call (SyntheticDataRequest [])])"
proof -
  have "handleProblemSubmit_start initial_state
     = (app busy_system, Some (ModelLogicRequest (problemInput initial_state)))"
    by (simp add: handleProblemSubmit_start_def trim_examples busy_system_def)
  moreover have "isProcessing (app busy_system)"
    by (simp add: busy_system_def)
  moreover have "handleGenerateData (app busy_system) (Inr example_result)
     = (initial_state\<lparr>baselineData := example_result, stage := DATA_GENERATION\<rparr>,
        [Call (SyntheticDataRequest [])])"
    by (simp add: handler_defs busy_system_def initial_state_def)
  ultimately show ?thesis by (simp only: simp_thms)
qed

text \<open>
  C5, amended. The handlers do not test the in-flight flag and there is no error for a
  busy application; the view keeps the operations apart. In every state that the running
  application reaches from its initial state, at most one request is outstanding and the
  flag is set exactly while one is; while the flag is set no button can be clicked, so
  no operation can be started; and when the collaborator answers, no request is
  outstanding and the flag is clear, so that the flag disables no button any more. A
  second operation can then succeed: once the answer to Build Model has arrived, a click
  on Generate Synthetic Data starts the data request.
\<close>

theorem single_call_in_flight_through_view:
  assumes "run P initial_system es = Some \<sigma>"
  shows "length (pending \<sigma>) \<le> 1 \<and>
         isProcessing (app \<sigma>) = (pending \<sigma> \<noteq> []) \<and>
         (isProcessing (app \<sigma>) \<longrightarrow> (\<forall>c. fire P \<sigma> (Click c) = None)) \<and>
         (\<forall>i res \<sigma>'. fire P \<sigma> (Answer i res) = Some \<sigma>' \<longrightarrow>
            pending \<sigma>' = [] \<and> \<not> isProcessing (app \<sigma>')) \<and>
         (run P initial_system [Click BuildModel] = Some busy_system \<and>
          fire P busy_system (Click GenerateSyntheticData) = None \<and>
          fire P busy_system (Answer 0 (Responded (Some ''model''))) = Some modelled_system \<and>
          fire P modelled_system (Click GenerateSyntheticData)
            = Some \<lparr>app = modelled_state\<lparr>isProcessing := True\<rparr>,
                    pending = [SyntheticDataRequest ''model'']\<rparr>)"
proof -
  have inv: "single_in_flight \<sigma>"
    using run_keeps_single [OF initial_single assms] .
  have busy: "fire P \<sigma> (Click c) = None" if "isProcessing (app \<sigma>)" for c
  proof -
    from that inv obtain r where "pending \<sigma> = [r]" "stage (app \<sigma>) = issued_at r"
      by (cases "pending \<sigma>") (auto simp: single_in_flight_def)
    with that have "\<not> available (app \<sigma>) c"
      by (cases c; cases r) simp_all
    then show ?thesis by simp
  qed
  have answered: "pending \<sigma>' = [] \<and> \<not> isProcessing (app \<sigma>')"
    if "fire P \<sigma> (Answer i res) = Some \<sigma>'" for i res \<sigma>'
  proof -
    from that have i: "i < length (pending \<sigma>)" by (simp split: if_splits)
    from fire_keeps_single [OF inv that] have inv': "single_in_flight \<sigma>'" .
    from pending_single [OF inv i] obtain r where "i = 0" "pending \<sigma> = [r]" by blast
    with that have "pending \<sigma>' = []" by auto
    with inv' show ?thesis by (simp add: single_in_flight_def)
  qed
  have started: "run P initial_system [Click BuildModel] = Some busy_system"
    by (simp add: first_click del: fire.simps)
  have refused: "fire P busy_system (Click GenerateSyntheticData) = None"
    by (simp add: busy_system_def initial_state_def)
  have again: "fire P modelled_system (Click GenerateSyntheticData)
            = Some \<lparr>app = modelled_state\<lparr>isProcessing := True\<rparr>,
                    pending = [SyntheticDataRequest ''model'']\<rparr>"
    by (simp add: modelled_system_def modelled_state_def initial_state_def
                  handleGenerateData_start_def)
  show ?thesis
  proof (intro conjI allI impI)
    show "length (pending \<sigma>) \<le> 1"
      using inv by (simp add: single_in_flight_def)
    show "isProcessing (app \<sigma>) = (pending \<sigma> \<noteq> [])"
      using inv by (simp add: single_in_flight_def)
    show "run P initial_system [Click BuildModel] = Some busy_system"
      by (rule started)
    show "fire P busy_system (Click GenerateSyntheticData) = None"
      by (rule refused)
    show "fire P busy_system (Answer 0 (Responded (Some ''model''))) = Some modelled_system"
      by (rule first_answer)
    show "fire P modelled_system (Click GenerateSyntheticData)
            = Some \<lparr>app = modelled_state\<lparr>isProcessing := True\<rparr>,
                    pending = [SyntheticDataRequest ''model'']\<rparr>"
      by (rule again)
  next
    fix c assume "isProcessing (app \<sigma>)"
    then show "fire P \<sigma> (Click c) = None" by (rule busy)
  next
    fix i res \<sigma>' assume f: "fire P \<sigma> (Answer i res) = Some \<sigma>'"
    from answered [OF f] show "pending \<sigma>' = []" and "\<not> isProcessing (app \<sigma>')"
      by blast+
  qed
qed

theorem single_call_in_flight_through_view_witness:
  "run Map.empty initial_system [Click BuildModel] = Some busy_system \<and>
   isProcessing (app busy_system) \<and>
   fire Map.empty busy_system (Click GenerateSyntheticData) = None \<and>
   fire Map.empty busy_system (Answer 0 (Responded (Some ''model''))) = Some modelled_system \<and>
   pending modelled_system = [] \<and> \<not> isProcessing (app modelled_system) \<and>
   fire Map.empty modelled_system (Click GenerateSyntheticData) \<noteq> None"
proof -
  have r: "run Map.empty initial_system [Click BuildModel] = Some busy_system"
    by (simp add: first_click del: fire.simps)
  have b: "isProcessing (app busy_system)"
    by (simp add: busy_system_def)
  have f: "fire Map.empty busy_system (Answer 0 (Responded (Some ''model'')))
             = Some modelled_system"
    by (rule first_answer)
  note t = single_call_in_flight_through_view [OF r]
  note t3 = t [THEN conjunct2, THEN conjunct2, THEN conjunct1, rule_format, OF b]
  note t4 = t [THEN conjunct2, THEN conjunct2, THEN conjunct2, THEN conjunct1,
               rule_format, OF f]
  note t5 = t [THEN conjunct2, THEN conjunct2, THEN conjunct2, THEN conjunct2,
               THEN conjunct2, THEN conjunct2, THEN conjunct2]
  have again: "fire Map.empty modelled_system (Click GenerateSyntheticData) \<noteq> None"
    by (simp only: t5 option.distinct not_False_eq_True)
  from r b t3 [of GenerateSyntheticData] f t4 again
  show ?thesis by (simp only: simp_thms)
qed










end
